theory Spec2Isabelle
  imports Complex_Main
begin

section \<open>Document model\<close>

text \<open>
  The extraction pass of \<^verbatim>\<open>cat_loader.py\<close> reads a parsed drawing: a layer table, a
  block table and the model space. Attributes that the Python reads with
  \<^verbatim>\<open>getattr(obj, name, default)\<close> are optional fields here; \<open>None\<close> is the absent
  attribute. Floating point numbers are modelled as real numbers.
\<close>

type_synonym rgb = "int \<times> int \<times> int"

record layer_entry =
  lay_color :: "int option"
  lay_lineweight :: "int option"
  lay_linetype :: "string option"

record dxf_attribs =
  dxf_color :: "int option"
  dxf_layer :: string
  dxf_lineweight :: "int option"
  dxf_linetype :: "string option"
  dxf_invisible :: int

section \<open>Attribute resolution\<close>

text \<open>\<^verbatim>\<open>specials = {-1, -2, -3, None}\<close>: BYLAYER, BYBLOCK, DEFAULT and the absent value.\<close>

definition specials :: "int option \<Rightarrow> bool" where
  "specials v = (v = Some (- 1) \<or> v = Some (- 2) \<or> v = Some (- 3) \<or> v = None)"

text \<open>\<^verbatim>\<open>int(lw or 0)\<close> on an optional integer.\<close>

definition int_or_0 :: "int option \<Rightarrow> int" where
  "int_or_0 v = (case v of None \<Rightarrow> 0 | Some n \<Rightarrow> n)"

text \<open>
  \<^verbatim>\<open>_effective_lineweight(doc, entity)\<close>, with the layer table passed in place of the
  document. A failed layer lookup is the exception branch of the source.
\<close>

definition effective_lineweight ::
  "(string \<rightharpoonup> layer_entry) \<Rightarrow> dxf_attribs \<Rightarrow> int \<times> string" where
  "effective_lineweight lays e =
     (let lw = dxf_lineweight e in
      if specials lw then
        (case lays (dxf_layer e) of
           None \<Rightarrow> (0, ''DEFAULT'')
         | Some lay \<Rightarrow>
             (let lw_layer = (case lay_lineweight lay of None \<Rightarrow> Some 0 | Some v \<Rightarrow> Some v)
              in (int_or_0 (if \<not> specials lw_layer then lw_layer else Some 0), ''LAYER'')))
      else (int_or_0 lw, ''ENTITY''))"

text \<open>
  \<^verbatim>\<open>str.upper\<close> on names written in ASCII. The value of a text is a string of
  Unicode code points; \<open>py_isspace\<close> holds of the code points \<^verbatim>\<open>str.strip()\<close> removes,
  and a string strips to the empty string when all its code points are of that kind.
\<close>

type_synonym ustring = "nat list"

definition upper_char :: "char \<Rightarrow> char" where
  "upper_char c = (let n = (of_char c :: nat) in if 97 \<le> n \<and> n \<le> 122 then char_of (n - 32) else c)"

definition upper :: "string \<Rightarrow> string" where
  "upper s = map upper_char s"

definition py_isspace :: "nat \<Rightarrow> bool" where
  "py_isspace n =
     ((9 \<le> n \<and> n \<le> 13) \<or> (28 \<le> n \<and> n \<le> 32) \<or> n = 133 \<or> n = 160 \<or> n = 5760 \<or>
      (8192 \<le> n \<and> n \<le> 8202) \<or> n = 8232 \<or> n = 8233 \<or> n = 8239 \<or> n = 8287 \<or> n = 12288)"

definition strip_nonempty :: "ustring \<Rightarrow> bool" where
  "strip_nonempty s = (filter (\<lambda>c. \<not> py_isspace c) s \<noteq> [])"

text \<open>\<^verbatim>\<open>_effective_linetype(doc, entity)\<close>.\<close>

definition effective_linetype ::
  "(string \<rightharpoonup> layer_entry) \<Rightarrow> dxf_attribs \<Rightarrow> string \<times> string" where
  "effective_linetype lays e =
     (let ltn = (case dxf_linetype e of None \<Rightarrow> [] | Some s \<Rightarrow> s) in
      if ltn = [] \<or> upper ltn = ''BYLAYER'' \<or> upper ltn = ''BYBLOCK'' then
        (case lays (dxf_layer e) of
           None \<Rightarrow> (''CONTINUOUS'', ''DEFAULT'')
         | Some lay \<Rightarrow>
             (case lay_linetype lay of
                None \<Rightarrow> (''CONTINUOUS'', ''LAYER'')
              | Some s \<Rightarrow> (if s = [] then ''CONTINUOUS'' else s, ''LAYER'')))
      else (ltn, ''ENTITY''))"

text \<open>
  \<^verbatim>\<open>_effective_color(doc, entity, byblock_color)\<close>. The palette \<^verbatim>\<open>_aci_to_rgb\<close> is the
  drawing library's table and is a parameter; \<open>None\<close> is an index for which the
  table raises, answered by the neutral grey of the source. The constants of the
  library are \<^verbatim>\<open>BYBLOCK = 0\<close> and \<^verbatim>\<open>BYLAYER = 256\<close>, the literals the source lists
  beside them. The second definition is the part of the function from the comment
  \<^verbatim>\<open># BYLAYER: 256\<close> on.
\<close>

definition color_from_aci ::
  "(int \<Rightarrow> rgb option) \<Rightarrow> (string \<rightharpoonup> layer_entry) \<Rightarrow> dxf_attribs \<Rightarrow> int option \<Rightarrow> rgb" where
  "color_from_aci aci_to_rgb lays e aci =
     (let aci' =
        (if aci = None \<or> aci = Some 256 then
           (case lays (dxf_layer e) of
              None \<Rightarrow> Some 7
            | Some lay \<Rightarrow> (case lay_color lay of None \<Rightarrow> Some 7 | Some c \<Rightarrow> Some c))
         else aci)
      in case aci_to_rgb (case aci' of None \<Rightarrow> 7 | Some c \<Rightarrow> c) of
           Some c \<Rightarrow> c
         | None \<Rightarrow> (200, 200, 210))"

definition effective_color ::
  "(int \<Rightarrow> rgb option) \<Rightarrow> (string \<rightharpoonup> layer_entry) \<Rightarrow> dxf_attribs \<Rightarrow> rgb option \<Rightarrow> rgb" where
  "effective_color aci_to_rgb lays e byblock_color =
     (if dxf_color e = Some 0 then
        (case byblock_color of
           Some c \<Rightarrow> c
         | None \<Rightarrow> color_from_aci aci_to_rgb lays e (Some 256))
      else color_from_aci aci_to_rgb lays e (dxf_color e))"

text \<open>
  \<^verbatim>\<open>_layer_is_visible(doc, layer_name)\<close>. The lookup of a layer that is not in the
  table raises, and the layer is visible. For a layer of the table the source reads
  \<^verbatim>\<open>getattr(lay, "is_off", False)\<close> and \<^verbatim>\<open>getattr(lay, "is_frozen", False)\<close>; both are
  methods of the library's layer, read here without a call, and a method is true: the
  first test returns \<open>False\<close> whatever the state of the layer.
\<close>

definition layer_is_visible :: "(string \<rightharpoonup> layer_entry) \<Rightarrow> string \<Rightarrow> bool" where
  "layer_is_visible lays layer_name =
     (case lays layer_name of
        None \<Rightarrow> True
      | Some lay \<Rightarrow> False)"

section \<open>Transforms\<close>

text \<open>
  The drawing library's \<^verbatim>\<open>Matrix44\<close>: sixteen numbers in row-major order. The
  library documents that its matrices act on row vectors: \<^verbatim>\<open>m.transform(v)\<close> is the
  product of the row \<open>(x, y, z, 1)\<close> with the matrix, the translation standing in
  the fourth row, and \<^verbatim>\<open>a @ b\<close> is the matrix product of \<open>a\<close> and \<open>b\<close> in that order.
\<close>

type_synonym vec3 = "real \<times> real \<times> real"
type_synonym row4 = "real \<times> real \<times> real \<times> real"

datatype Matrix44 = Matrix44 row4 row4 row4 row4

fun row_times :: "row4 \<Rightarrow> Matrix44 \<Rightarrow> row4" where
  "row_times (a, b, c, d)
     (Matrix44 (m0, m1, m2, m3) (m4, m5, m6, m7) (m8, m9, m10, m11) (m12, m13, m14, m15)) =
     (a * m0 + b * m4 + c * m8 + d * m12,
      a * m1 + b * m5 + c * m9 + d * m13,
      a * m2 + b * m6 + c * m10 + d * m14,
      a * m3 + b * m7 + c * m11 + d * m15)"

fun matmul :: "Matrix44 \<Rightarrow> Matrix44 \<Rightarrow> Matrix44" where
  "matmul (Matrix44 r0 r1 r2 r3) other =
     Matrix44 (row_times r0 other) (row_times r1 other) (row_times r2 other) (row_times r3 other)"

fun transform :: "Matrix44 \<Rightarrow> vec3 \<Rightarrow> vec3" where
  "transform
     (Matrix44 (m0, m1, m2, m3) (m4, m5, m6, m7) (m8, m9, m10, m11) (m12, m13, m14, m15))
     (x, y, z) =
     (x * m0 + y * m4 + z * m8 + m12,
      x * m1 + y * m5 + z * m9 + m13,
      x * m2 + y * m6 + z * m10 + m14)"

text \<open>The library's constructors \<^verbatim>\<open>Matrix44.translate\<close> and \<^verbatim>\<open>Matrix44.scale\<close>.\<close>

definition translate :: "real \<Rightarrow> real \<Rightarrow> real \<Rightarrow> Matrix44" where
  "translate dx dy dz = Matrix44 (1, 0, 0, 0) (0, 1, 0, 0) (0, 0, 1, 0) (dx, dy, dz, 1)"

definition scale :: "real \<Rightarrow> real \<Rightarrow> real \<Rightarrow> Matrix44" where
  "scale sx sy sz = Matrix44 (sx, 0, 0, 0) (0, sy, 0, 0) (0, 0, sz, 0) (0, 0, 0, 1)"

text \<open>
  A matrix is affine when its fourth column is \<open>(0, 0, 0, 1)\<close>; the matrix of an
  Insert (translation, rotation, scale, base point) is.
\<close>

fun affine :: "Matrix44 \<Rightarrow> bool" where
  "affine (Matrix44 (m0, m1, m2, m3) (m4, m5, m6, m7) (m8, m9, m10, m11) (m12, m13, m14, m15)) =
     (m3 = 0 \<and> m7 = 0 \<and> m11 = 0 \<and> m15 = 1)"

text \<open>\<^verbatim>\<open>apply_point(pt, m)\<close>; without a matrix the point is returned as it is.\<close>

definition apply_point :: "vec3 \<Rightarrow> Matrix44 option \<Rightarrow> vec3" where
  "apply_point pt m = (case m of Some M \<Rightarrow> transform M pt | None \<Rightarrow> pt)"

section \<open>Entities, primitives and options\<close>

text \<open>
  The edges of a hatch boundary path, by their \<^verbatim>\<open>EDGE_TYPE\<close>: a line edge (start, end),
  an arc edge (center, radius, start angle, end angle, ccw), an ellipse edge (center,
  ratio, major axis, start parameter, end parameter), and any other edge.
\<close>

type_synonym pt2 = "real \<times> real"

datatype edge =
    LineEdge pt2 pt2
  | ArcEdge pt2 real real real bool
  | EllipseEdge pt2 real pt2 real real
  | OtherEdge string

text \<open>
  A boundary path of a hatch is an edge path, which iterates over its edges, or a
  polyline path (vertices with bulge, and the closed flag), which does not iterate.
\<close>

datatype boundary_path =
    EdgePath "edge list"
  | PolylinePath "(real \<times> real \<times> real) list" bool

text \<open>
  The entities by their \<^verbatim>\<open>dxftype()\<close>, each with the attributes the extraction reads:
  \<open>LINE\<close> start end; \<open>LWPOLYLINE\<close> its vertex rows (x, y), and closed;
  \<open>POLYLINE\<close> vertex locations
  is_closed; \<open>CIRCLE\<close> center radius; \<open>ARC\<close> center radius start_angle end_angle;
  \<open>TEXT\<close> insert height rotation text; \<open>MTEXT\<close> insert rotation char_height, the
  result of \<^verbatim>\<open>plain_text()\<close> (\<open>None\<close> when it raises) and text; \<open>HATCH\<close> paths
  solid_fill; \<open>INSERT\<close> name and the result of \<^verbatim>\<open>matrix44()\<close> (\<open>None\<close> when it
  raises); \<open>OTHER\<close> is an entity of any other type, with the name of the type.
\<close>

datatype entity =
    LINE dxf_attribs vec3 vec3
  | LWPOLYLINE dxf_attribs "pt2 list" bool
  | POLYLINE dxf_attribs "vec3 list" bool
  | CIRCLE dxf_attribs vec3 real
  | ARC dxf_attribs vec3 real real real
  | TEXT dxf_attribs vec3 "real option" "real option" "ustring option"
  | MTEXT dxf_attribs vec3 "real option" "real option" "ustring option" "ustring option"
  | HATCH dxf_attribs "boundary_path list" bool
  | INSERT dxf_attribs string "Matrix44 option"
  | OTHER dxf_attribs string

fun dxf :: "entity \<Rightarrow> dxf_attribs" where
  "dxf (LINE a _ _) = a"
| "dxf (LWPOLYLINE a _ _) = a"
| "dxf (POLYLINE a _ _) = a"
| "dxf (CIRCLE a _ _) = a"
| "dxf (ARC a _ _ _ _) = a"
| "dxf (TEXT a _ _ _ _) = a"
| "dxf (MTEXT a _ _ _ _ _) = a"
| "dxf (HATCH a _ _) = a"
| "dxf (INSERT a _ _) = a"
| "dxf (OTHER a _) = a"

record document =
  layers :: "string \<rightharpoonup> layer_entry"
  blocks :: "string \<rightharpoonup> entity list"
  modelspace :: "entity list"

text \<open>
  The payload of a primitive: the dictionary \<^verbatim>\<open>data\<close> of the source holds the four
  keys of \<^verbatim>\<open>base_data()\<close> and the keys of the geometry, which depend on the type:
  \<open>LineG\<close> x1 y1 x2 y2; \<open>PolyG\<close> pts closed; \<open>CircleG\<close> cx cy r; \<open>ArcG\<close> cx cy r
  start end; \<open>TextG\<close> x y h rot value; \<open>MTextG\<close> x y char_height rot value;
  \<open>HatchG\<close> loops solid.
\<close>

datatype geometry =
    LineG real real real real
  | PolyG "pt2 list" bool
  | CircleG real real real
  | ArcG real real real real real
  | TextG real real real real ustring
  | MTextG real real real real ustring
  | HatchG "pt2 list list" bool

record prim_data =
  lw :: int
  lw_raw :: int
  lt :: string
  lt_raw :: string
  geom :: geometry

record primitive =
  tipo :: string
  layer :: string
  color :: rgb
  data :: prim_data
  is_block :: bool
  block_name :: "string option"

text \<open>The keyword arguments of \<^verbatim>\<open>extraer_primitivas_basicas\<close>.\<close>

record options =
  limitar :: "int option"
  expand_blocks :: bool
  max_block_repeats :: int
  max_total_after_blocks :: int
  incluir_texto :: bool
  incluir_hatch :: bool

text \<open>The variables of the pass that the nested functions update.\<close>

record ext_state =
  prims :: "primitive list"
  cuenta :: int
  block_repeats :: "string \<rightharpoonup> int"

section \<open>Arc discretization and hatch loops\<close>

definition radians :: "real \<Rightarrow> real" where
  "radians d = d * (pi / 180)"

definition degrees :: "real \<Rightarrow> real" where
  "degrees r = r * (180 / pi)"

text \<open>
  The two loops of \<^verbatim>\<open>discretizar_arco\<close>, \<^verbatim>\<open>while a1 <= a0: a1 += 2 * math.pi\<close> and the
  same with the roles exchanged: a full turn is added to \<open>a\<close> until it is above \<open>lo\<close>.
\<close>

function add_turns :: "real \<Rightarrow> real \<Rightarrow> real" where
  "add_turns lo a = (if a \<le> lo then add_turns lo (a + 2 * pi) else a)"
  by pat_completeness auto
termination
proof (relation "measure (\<lambda>(lo, a). nat (\<lfloor>(lo - a) / (2 * pi)\<rfloor> + 1))")
  show "wf (measure (\<lambda>(lo, a). nat (\<lfloor>(lo - a) / (2 * pi)\<rfloor> + 1)))"
    by simp
next
  fix lo a :: real
  assume le: "a \<le> lo"
  have "(lo - (a + 2 * pi)) / (2 * pi) = (lo - a) / (2 * pi) - 1"
    by (simp add: field_simps)
  then have fl: "\<lfloor>(lo - (a + 2 * pi)) / (2 * pi)\<rfloor> = \<lfloor>(lo - a) / (2 * pi)\<rfloor> - 1"
    by simp
  have "0 \<le> (lo - a) / (2 * pi)"
    using le by simp
  then have "0 \<le> \<lfloor>(lo - a) / (2 * pi)\<rfloor>"
    by simp
  with fl show "((lo, a + 2 * pi), (lo, a)) \<in> measure (\<lambda>(lo, a). nat (\<lfloor>(lo - a) / (2 * pi)\<rfloor> + 1))"
    by simp
qed

declare add_turns.simps [simp del]

text \<open>
  The angles between which \<^verbatim>\<open>discretizar_arco\<close> samples: \<^verbatim>\<open>a0\<close> and \<^verbatim>\<open>a1\<close> after the
  loop of the chosen direction.
\<close>

definition arc_limits :: "real \<Rightarrow> real \<Rightarrow> bool \<Rightarrow> real \<times> real" where
  "arc_limits start_deg end_deg ccw =
     (let a0 = radians start_deg; a1 = radians end_deg
      in if ccw then (a0, add_turns a0 a1) else (add_turns a1 a0, a1))"

text \<open>\<^verbatim>\<open>discretizar_arco(cx, cy, r, start_deg, end_deg, ccw, seg)\<close>.\<close>

definition discretizar_arco ::
  "real \<Rightarrow> real \<Rightarrow> real \<Rightarrow> real \<Rightarrow> real \<Rightarrow> bool \<Rightarrow> int \<Rightarrow> pt2 list" where
  "discretizar_arco cx cy r start_deg end_deg ccw seg =
     (let (a0, a1) = arc_limits start_deg end_deg ccw;
          steps = nat (max 4 seg)
      in map (\<lambda>i. let t = real i / real steps;
                        ang = a0 + (a1 - a0) * t
                    in (cx + cos ang * r, cy + sin ang * r))
           [0 ..< steps + 1])"

text \<open>\<^verbatim>\<open>math.atan2(y, x)\<close> and \<^verbatim>\<open>math.hypot(x, y)\<close> on real numbers.\<close>

definition atan2 :: "real \<Rightarrow> real \<Rightarrow> real" where
  "atan2 y x =
     (if 0 < x then arctan (y / x)
      else if x < 0 then (if 0 \<le> y then arctan (y / x) + pi else arctan (y / x) - pi)
      else if 0 < y then pi / 2
      else if y < 0 then - (pi / 2)
      else 0)"

definition hypot :: "real \<Rightarrow> real \<Rightarrow> real" where
  "hypot x y = sqrt (x * x + y * y)"

text \<open>
  One edge of a boundary path in \<^verbatim>\<open>hatch_loops\<close>. The state is the list \<^verbatim>\<open>current\<close>
  and \<^verbatim>\<open>first_pt\<close>, which is set exactly when \<^verbatim>\<open>first_set\<close> is.
\<close>

fun hatch_edge :: "edge \<Rightarrow> pt2 list \<times> pt2 option \<Rightarrow> pt2 list \<times> pt2 option" where
  "hatch_edge (LineEdge (x1, y1) (x2, y2)) (current, first_pt) =
     (case first_pt of
        None \<Rightarrow> (current @ [(x1, y1), (x2, y2)], Some (x1, y1))
      | Some f \<Rightarrow> (current @ [(x2, y2)], Some f))"
| "hatch_edge (ArcEdge (cx, cy) r start_angle end_angle ccw) (current, first_pt) =
     (case discretizar_arco cx cy r (degrees start_angle) (degrees end_angle) (\<not> ccw) 28 of
        [] \<Rightarrow> (current, first_pt)
      | p # ps \<Rightarrow>
          (case first_pt of
             None \<Rightarrow> (current @ [p] @ ps, Some p)
           | Some f \<Rightarrow> (current @ ps, Some f)))"
| "hatch_edge (EllipseEdge (cx, cy) ratio (mx, my) start_param end_param) (current, first_pt) =
     (let a = hypot mx my;
          b = a * ratio;
          ang = degrees (atan2 my mx);
          pts = map (\<lambda>i. let tt = start_param + (end_param - start_param) * (real i / 48);
                               x = a * cos tt;
                               y = b * sin tt;
                               xr = x * cos (radians ang) - y * sin (radians ang);
                               yr = x * sin (radians ang) + y * cos (radians ang)
                           in (cx + xr, cy + yr))
                  [0 ..< 49]
      in case pts of
           [] \<Rightarrow> (current, first_pt)
         | p # _ \<Rightarrow> (current @ pts, (case first_pt of None \<Rightarrow> Some p | Some f \<Rightarrow> Some f)))"
| "hatch_edge (OtherEdge _) (current, first_pt) = (current, first_pt)"

text \<open>One boundary path: the loop it contributes, if it has a point.\<close>

definition hatch_path :: "edge list \<Rightarrow> pt2 list option" where
  "hatch_path bpath =
     (case fold hatch_edge bpath ([], None) of
        (current, first_pt) \<Rightarrow>
          (if current = [] then None
           else (case first_pt of
                   None \<Rightarrow> Some current
                 | Some f \<Rightarrow>
                     if 1 / 1000000 < \<bar>fst (last current) - fst f\<bar>
                        \<or> 1 / 1000000 < \<bar>snd (last current) - snd f\<bar>
                     then Some (current @ [f]) else Some current)))"

text \<open>
  \<^verbatim>\<open>hatch_loops(e)\<close>, on the paths of the hatch. It takes no transform. The loop over
  the edges of a polyline path raises, and the handler around the loop over the paths
  returns the loops collected so far.
\<close>

fun hatch_loops :: "boundary_path list \<Rightarrow> pt2 list list" where
  "hatch_loops [] = []"
| "hatch_loops (EdgePath bpath # paths) =
     (case hatch_path bpath of None \<Rightarrow> [] | Some l \<Rightarrow> [l]) @ hatch_loops paths"
| "hatch_loops (PolylinePath vs is_closed # paths) = []"

section \<open>The extraction pass\<close>

text \<open>The test \<^verbatim>\<open>limitar and cuenta >= limitar\<close>: neither \<open>None\<close> nor \<open>0\<close> is a limit.\<close>

definition limit_hit :: "options \<Rightarrow> ext_state \<Rightarrow> bool" where
  "limit_hit opts st = (case limitar opts of None \<Rightarrow> False | Some l \<Rightarrow> l \<noteq> 0 \<and> l \<le> cuenta st)"

definition entidad_visible :: "document \<Rightarrow> entity \<Rightarrow> bool" where
  "entidad_visible doc e =
     (if dxf_invisible (dxf e) = 1 then False
      else if \<not> layer_is_visible (layers doc) (dxf_layer (dxf e)) then False
      else True)"

definition add_primitive ::
  "string \<Rightarrow> string \<Rightarrow> rgb \<Rightarrow> prim_data \<Rightarrow> bool \<Rightarrow> string option \<Rightarrow> ext_state \<Rightarrow> ext_state" where
  "add_primitive tp lay col d is_blk blk_name st =
     st\<lparr>prims := prims st @
            [\<lparr>tipo = tp, layer = lay, color = col, data = d, is_block = is_blk, block_name = blk_name\<rparr>],
        cuenta := cuenta st + 1\<rparr>"

text \<open>\<^verbatim>\<open>base_data()\<close> with the geometry keys of the primitive added.\<close>

definition base_data :: "(string \<rightharpoonup> layer_entry) \<Rightarrow> dxf_attribs \<Rightarrow> geometry \<Rightarrow> prim_data" where
  "base_data lays a g =
     \<lparr>lw = fst (effective_lineweight lays a),
      lw_raw = int_or_0 (dxf_lineweight a),
      lt = fst (effective_linetype lays a),
      lt_raw = (case dxf_linetype a of None \<Rightarrow> ''BYLAYER'' | Some s \<Rightarrow> if s = [] then ''BYLAYER'' else s),
      geom = g\<rparr>"

text \<open>\<^verbatim>\<open>float(getattr(e.dxf, name, d) or d)\<close>.\<close>

definition float_or :: "real \<Rightarrow> real option \<Rightarrow> real" where
  "float_or d v = (case v of None \<Rightarrow> d | Some x \<Rightarrow> if x = 0 then d else x)"

definition xy :: "vec3 \<Rightarrow> pt2" where
  "xy p = (fst p, fst (snd p))"

text \<open>
  The branches of \<^verbatim>\<open>entity_to_prims\<close> that do not recurse: the type and the geometry
  of the primitive the entity adds, if it adds one. Every branch but the one of
  \<open>HATCH\<close> passes its points through \<^verbatim>\<open>apply_point\<close>. The vertex rows of an
  \<open>LWPOLYLINE\<close> are tuples of the library: \<^verbatim>\<open>v.dxf\<close> raises on the first of them and the
  handler returns, and without a row the list of points is empty; no primitive is
  added for it either way.
\<close>

fun entity_geometry :: "options \<Rightarrow> entity \<Rightarrow> Matrix44 option \<Rightarrow> (string \<times> geometry) option" where
  "entity_geometry opts (LINE a p_start p_end) tr =
     (let p1 = apply_point p_start tr; p2 = apply_point p_end tr
      in Some (''LINE'', LineG (fst p1) (fst (snd p1)) (fst p2) (fst (snd p2))))"
| "entity_geometry opts (LWPOLYLINE a vs is_closed) tr = None"
| "entity_geometry opts (POLYLINE a locs is_closed) tr =
     (let pts = map (\<lambda>loc. xy (apply_point loc tr)) locs
      in if pts \<noteq> [] then Some (''POLYLINE'', PolyG pts is_closed) else None)"
| "entity_geometry opts (CIRCLE a c r) tr =
     (let center = apply_point c tr
      in Some (''CIRCLE'', CircleG (fst center) (fst (snd center)) r))"
| "entity_geometry opts (ARC a c r start_angle end_angle) tr =
     (let center = apply_point c tr
      in Some (''ARC'', ArcG (fst center) (fst (snd center)) r start_angle end_angle))"
| "entity_geometry opts (TEXT a ins height rotation txt_attr) tr =
     (if incluir_texto opts then
        (let p = apply_point ins tr;
             h = float_or (5 / 2) height;
             rot = float_or 0 rotation;
             txt = (case txt_attr of None \<Rightarrow> [] | Some s \<Rightarrow> s)
         in if strip_nonempty txt then Some (''TEXT'', TextG (fst p) (fst (snd p)) h rot txt) else None)
      else None)"
| "entity_geometry opts (MTEXT a ins rotation char_height plain_text txt_attr) tr =
     (if incluir_texto opts then
        (let p = apply_point ins tr;
             rot = float_or 0 rotation;
             ch = float_or (5 / 2) char_height;
             content = (case plain_text of
                          Some s \<Rightarrow> s
                        | None \<Rightarrow> (case txt_attr of None \<Rightarrow> [] | Some s \<Rightarrow> s))
         in if strip_nonempty content then Some (''MTEXT'', MTextG (fst p) (fst (snd p)) ch rot content)
            else None)
      else None)"
| "entity_geometry opts (HATCH a paths solid_fill) tr =
     (if incluir_hatch opts then
        (let loops = hatch_loops paths
         in if loops \<noteq> [] then Some (''HATCH'', HatchG loops solid_fill) else None)
      else None)"
| "entity_geometry opts (INSERT a name m) tr = None"
| "entity_geometry opts (OTHER a name) tr = None"

text \<open>
  \<^verbatim>\<open>entity_to_prims(e, transform, depth, block_name, byblock_color)\<close>, with the palette,
  the options and the document it closes over as parameters, and the variables it
  updates as a state. The matrix product of a transform with a missing matrix raises,
  and the handler of the source returns.
\<close>

function entity_to_prims ::
  "(int \<Rightarrow> rgb option) \<Rightarrow> options \<Rightarrow> document \<Rightarrow> entity \<Rightarrow> Matrix44 option \<Rightarrow> nat \<Rightarrow>
   string option \<Rightarrow> rgb option \<Rightarrow> ext_state \<Rightarrow> ext_state" where
  "entity_to_prims pal opts doc e tr depth bname byblock_color st =
     (if limit_hit opts st then st
      else if max_total_after_blocks opts \<le> cuenta st then st
      else if \<not> entidad_visible doc e then st
      else
        (case e of
           INSERT a name m \<Rightarrow>
             (if \<not> expand_blocks opts then st
              else if 8 < depth then st
              else
                (let n = (case block_repeats st name of None \<Rightarrow> 0 | Some k \<Rightarrow> k) + 1;
                     st1 = st\<lparr>block_repeats := (block_repeats st)(name \<mapsto> n)\<rparr>;
                     col_byblock = effective_color pal (layers doc) a None
                 in if max_block_repeats opts < n then st1
                    else
                      (case blocks doc name of
                         None \<Rightarrow> st1
                       | Some blk \<Rightarrow>
                           (case tr of
                              None \<Rightarrow>
                                fold (\<lambda>be. entity_to_prims pal opts doc be m (depth + 1)
                                             (Some name) (Some col_byblock)) blk st1
                            | Some T \<Rightarrow>
                                (case m of
                                   None \<Rightarrow> st1
                                 | Some M \<Rightarrow>
                                     fold (\<lambda>be. entity_to_prims pal opts doc be (Some (matmul T M))
                                                  (depth + 1) (Some name) (Some col_byblock)) blk st1)))))
         | _ \<Rightarrow>
             (case entity_geometry opts e tr of
                None \<Rightarrow> st
              | Some (tp, g) \<Rightarrow>
                  add_primitive tp (dxf_layer (dxf e))
                    (effective_color pal (layers doc) (dxf e) byblock_color)
                    (base_data (layers doc) (dxf e) g) (bname \<noteq> None) bname st)))"
  by pat_completeness auto
termination
  by (relation "measure (\<lambda>(pal, opts, doc, e, tr, depth, bname, byblock_color, st). 9 - depth)") auto

declare entity_to_prims.simps [simp del]




text \<open>The loop over the model space, with its two tests after every entity.\<close>

fun recorrido ::
  "(int \<Rightarrow> rgb option) \<Rightarrow> options \<Rightarrow> document \<Rightarrow> entity list \<Rightarrow> ext_state \<Rightarrow> ext_state" where
  "recorrido pal opts doc [] st = st"
| "recorrido pal opts doc (ent # msp) st =
     (let st' = entity_to_prims pal opts doc ent None 0 None None st
      in if limit_hit opts st' then st'
         else if max_total_after_blocks opts \<le> cuenta st' then st'
         else recorrido pal opts doc msp st')"

text \<open>
  \<^verbatim>\<open>extraer_primitivas_basicas\<close> on a document that has been read: the primitives
  of the final state.
\<close>

definition extraer_primitivas_basicas ::
  "(int \<Rightarrow> rgb option) \<Rightarrow> options \<Rightarrow> document \<Rightarrow> primitive list" where
  "extraer_primitivas_basicas pal opts doc =
     prims (recorrido pal opts doc (modelspace doc) \<lparr>prims = [], cuenta = 0, block_repeats = Map.empty\<rparr>)"

section \<open>Extents\<close>

text \<open>
  The four running bounds of \<^verbatim>\<open>calcular_extents_primitivas\<close> start at
  \<^verbatim>\<open>float("inf")\<close> and \<^verbatim>\<open>float("-inf")\<close>; \<open>fmin\<close> and \<open>fmax\<close> are \<^verbatim>\<open>min\<close> and \<^verbatim>\<open>max\<close> of
  a bound and a finite coordinate.
\<close>

datatype xfloat = NegInf | Fin real | PosInf

fun fmin :: "xfloat \<Rightarrow> real \<Rightarrow> xfloat" where
  "fmin PosInf x = Fin x"
| "fmin (Fin a) x = Fin (min a x)"
| "fmin NegInf x = NegInf"

fun fmax :: "xfloat \<Rightarrow> real \<Rightarrow> xfloat" where
  "fmax NegInf x = Fin x"
| "fmax (Fin a) x = Fin (max a x)"
| "fmax PosInf x = PosInf"

type_synonym bounds = "xfloat \<times> xfloat \<times> xfloat \<times> xfloat"

fun upd :: "real \<Rightarrow> real \<Rightarrow> bounds \<Rightarrow> bounds" where
  "upd x y (xmin, ymin, xmax, ymax) = (fmin xmin x, fmin ymin y, fmax xmax x, fmax ymax y)"

text \<open>
  The body of the loop over the primitives. The source reads the payload by key, so
  a branch applies to every geometry that has its keys, and a missing key raises and
  leaves the bounds as they are.
\<close>

definition extents_step :: "primitive \<Rightarrow> bounds \<Rightarrow> bounds" where
  "extents_step p b =
     (let d = geom (data p); t = tipo p in
      if t = ''LINE'' then
        (case d of LineG x1 y1 x2 y2 \<Rightarrow> upd x2 y2 (upd x1 y1 b) | _ \<Rightarrow> b)
      else if t = ''POLYLINE'' then
        (case d of PolyG pts _ \<Rightarrow> fold (\<lambda>(x, y). upd x y) pts b | _ \<Rightarrow> b)
      else if t = ''CIRCLE'' then
        (case d of
           CircleG cx cy r \<Rightarrow> upd (cx + r) (cy + r) (upd (cx - r) (cy - r) b)
         | ArcG cx cy r _ _ \<Rightarrow> upd (cx + r) (cy + r) (upd (cx - r) (cy - r) b)
         | _ \<Rightarrow> b)
      else if t = ''ARC'' then
        (case d of
           CircleG cx cy r \<Rightarrow> upd (cx + r) (cy + r) (upd (cx - r) (cy - r) b)
         | ArcG cx cy r _ _ \<Rightarrow> upd (cx + r) (cy + r) (upd (cx - r) (cy - r) b)
         | _ \<Rightarrow> b)
      else if t = ''TEXT'' \<or> t = ''MTEXT'' then
        (case d of TextG x y _ _ _ \<Rightarrow> upd x y b | MTextG x y _ _ _ \<Rightarrow> upd x y b | _ \<Rightarrow> b)
      else if t = ''HATCH'' then
        (case d of HatchG loops _ \<Rightarrow> fold (\<lambda>loop. fold (\<lambda>(x, y). upd x y) loop) loops b | _ \<Rightarrow> b)
      else b)"

definition calcular_extents_primitivas :: "primitive list \<Rightarrow> bounds option" where
  "calcular_extents_primitivas ps =
     (case fold extents_step ps (PosInf, PosInf, NegInf, NegInf) of
        (xmin, ymin, xmax, ymax) \<Rightarrow> if xmin = PosInf then None else Some (xmin, ymin, xmax, ymax))"

text \<open>
  The governing points of a primitive in the words of the specification: both end
  points of a line, all vertices of a polyline and of the loops of a hatch, the
  corners \<open>(cx - r, cy - r)\<close> and \<open>(cx + r, cy + r)\<close> of the square around a circle or an
  arc, and the insertion point of a text. The extents they span are those of the
  smallest and the largest coordinates among them.
\<close>

definition governing_points :: "primitive \<Rightarrow> pt2 list" where
  "governing_points p =
     (let d = geom (data p); t = tipo p in
      if t = ''LINE'' then (case d of LineG x1 y1 x2 y2 \<Rightarrow> [(x1, y1), (x2, y2)] | _ \<Rightarrow> [])
      else if t = ''POLYLINE'' then (case d of PolyG pts _ \<Rightarrow> pts | _ \<Rightarrow> [])
      else if t = ''CIRCLE'' \<or> t = ''ARC'' then
        (case d of
           CircleG cx cy r \<Rightarrow> [(cx - r, cy - r), (cx + r, cy + r)]
         | ArcG cx cy r _ _ \<Rightarrow> [(cx - r, cy - r), (cx + r, cy + r)]
         | _ \<Rightarrow> [])
      else if t = ''TEXT'' \<or> t = ''MTEXT'' then
        (case d of TextG x y _ _ _ \<Rightarrow> [(x, y)] | MTextG x y _ _ _ \<Rightarrow> [(x, y)] | _ \<Rightarrow> [])
      else if t = ''HATCH'' then (case d of HatchG loops _ \<Rightarrow> concat loops | _ \<Rightarrow> [])
      else [])"

definition spanned_extents :: "pt2 list \<Rightarrow> bounds option" where
  "spanned_extents pts =
     (if pts = [] then None
      else Some (Fin (Min (set (map fst pts))), Fin (Min (set (map snd pts))),
                 Fin (Max (set (map fst pts))), Fin (Max (set (map snd pts)))))"

section \<open>Level of detail in \<^verbatim>\<open>LayerItem.paint\<close>\<close>













section \<open>Auxiliary notions for the proofs\<close>

text \<open>
  The three tests at the head of \<^verbatim>\<open>entity_to_prims\<close>, the counting of a block name,
  and the transform handed to the entities of a block (\<open>None\<close> when the matrix
  product raises).
\<close>

definition stops :: "options \<Rightarrow> document \<Rightarrow> entity \<Rightarrow> ext_state \<Rightarrow> bool" where
  "stops opts doc e st =
     (limit_hit opts st \<or> max_total_after_blocks opts \<le> cuenta st \<or> \<not> entidad_visible doc e)"

definition repeats_of :: "string \<Rightarrow> ext_state \<Rightarrow> int" where
  "repeats_of name st = (case block_repeats st name of None \<Rightarrow> 0 | Some k \<Rightarrow> k) + 1"

definition count_block :: "string \<Rightarrow> ext_state \<Rightarrow> ext_state" where
  "count_block name st =
     st\<lparr>block_repeats := (block_repeats st)(name \<mapsto> (case block_repeats st name of None \<Rightarrow> 0 | Some k \<Rightarrow> k) + 1)\<rparr>"

definition next_transform :: "Matrix44 option \<Rightarrow> Matrix44 option \<Rightarrow> Matrix44 option option" where
  "next_transform tr m =
     (case tr of
        None \<Rightarrow> Some m
      | Some T \<Rightarrow> (case m of None \<Rightarrow> None | Some M \<Rightarrow> Some (Some (matmul T M))))"

text \<open>A line that passes the test of visibility.\<close>

fun visible_line :: "document \<Rightarrow> entity \<Rightarrow> bool" where
  "visible_line doc (LINE a p_start p_end) = entidad_visible doc (LINE a p_start p_end)"
| "visible_line doc _ = False"

text \<open>The counter is the length of the list, and it does not pass the hard cap.\<close>

definition ext_inv :: "options \<Rightarrow> ext_state \<Rightarrow> bool" where
  "ext_inv opts st =
     (cuenta st = int (length (prims st)) \<and> cuenta st \<le> max 0 (max_total_after_blocks opts))"

section \<open>Sample drawings\<close>

text \<open>
  The default keyword arguments, a three-colour palette (1 red, 3 green, 7 white),
  attributes with a colour code and a layer, and a layer of the table with a colour.
  The table of the sample drawings holds the layer \<open>0\<close>; their entities are on layers
  that are not in the table, \<open>A\<close> and \<open>B\<close>.
\<close>

definition default_options :: options where
  "default_options =
     \<lparr>limitar = None, expand_blocks = True, max_block_repeats = 8000,
      max_total_after_blocks = 250000, incluir_texto = True, incluir_hatch = True\<rparr>"

definition sample_palette :: "int \<Rightarrow> rgb option" where
  "sample_palette c =
     (if c = 1 then Some (255, 0, 0) else if c = 3 then Some (0, 255, 0)
      else if c = 7 then Some (255, 255, 255) else None)"

definition attribs :: "int option \<Rightarrow> string \<Rightarrow> dxf_attribs" where
  "attribs c l =
     \<lparr>dxf_color = c, dxf_layer = l, dxf_lineweight = None, dxf_linetype = None, dxf_invisible = 0\<rparr>"

definition plain_layer :: "int \<Rightarrow> layer_entry" where
  "plain_layer c =
     \<lparr>lay_color = Some c, lay_lineweight = None, lay_linetype = None\<rparr>"

text \<open>A block that holds a line and two inserts of itself, inserted once.\<close>

definition growth_doc :: document where
  "growth_doc =
     \<lparr>layers = [''0'' \<mapsto> plain_layer 7],
      blocks = [''X'' \<mapsto> [LINE (attribs None ''A'') (0, 0, 0) (1, 0, 0),
                          INSERT (attribs None ''A'') ''X'' (Some (translate 1 0 0)),
                          INSERT (attribs None ''A'') ''X'' (Some (translate 0 1 0))]],
      modelspace = [INSERT (attribs None ''A'') ''X'' (Some (translate 0 0 0))]\<rparr>"

text \<open>A drawing of three lines, and a drawing of one line.\<close>

definition lines_doc :: document where
  "lines_doc =
     \<lparr>layers = [''0'' \<mapsto> plain_layer 7], blocks = Map.empty,
      modelspace = [LINE (attribs None ''A'') (0, 0, 0) (1, 0, 0),
                    LINE (attribs None ''A'') (0, 1, 0) (1, 1, 0),
                    LINE (attribs None ''A'') (0, 2, 0) (1, 2, 0)]\<rparr>"


definition line_doc :: document where
  "line_doc =
     \<lparr>layers = [''0'' \<mapsto> plain_layer 7], blocks = Map.empty,
      modelspace = [LINE (attribs None ''A'') (0, 0, 0) (10, 5, 0)]\<rparr>"




definition initial_state :: ext_state where
  "initial_state = \<lparr>prims = [], cuenta = 0, block_repeats = Map.empty\<rparr>"

text \<open>
  A red Insert (colour 1) of the block \<open>OUTER\<close>, which holds an Insert of colour BYBLOCK
  of the block \<open>INNER\<close>, which holds a line of colour BYBLOCK.
\<close>

definition byblock_doc :: document where
  "byblock_doc =
     \<lparr>layers = [''0'' \<mapsto> plain_layer 7, ''L1'' \<mapsto> plain_layer 3],
      blocks = [''INNER'' \<mapsto> [LINE (attribs (Some 0) ''A'') (0, 0, 0) (1, 0, 0)],
                ''OUTER'' \<mapsto> [INSERT (attribs (Some 0) ''B'') ''INNER'' (Some (translate 0 0 0))]],
      modelspace = [INSERT (attribs (Some 1) ''A'') ''OUTER'' (Some (translate 0 0 0))]\<rparr>"

text \<open>A block with a line and a hatch of two line edges, inserted at \<open>(10, 20)\<close>.\<close>

definition hatch_doc :: document where
  "hatch_doc =
     \<lparr>layers = [''0'' \<mapsto> plain_layer 7],
      blocks = [''B'' \<mapsto> [LINE (attribs None ''A'') (0, 0, 0) (1, 0, 0),
                          HATCH (attribs None ''A'') [EdgePath [LineEdge (0, 0) (1, 0), LineEdge (1, 0) (1, 1)]] True]],
      modelspace = [INSERT (attribs None ''A'') ''B'' (Some (translate 10 20 0))]\<rparr>"

text \<open>
  The block \<open>OUTER\<close>, inserted ten units to the right, holds an Insert of the block
  \<open>INNER\<close> at twice the size; \<open>INNER\<close> holds the line from \<open>(1, 0)\<close> to \<open>(2, 0)\<close>.
\<close>

definition nested_doc :: document where
  "nested_doc =
     \<lparr>layers = [''0'' \<mapsto> plain_layer 7],
      blocks = [''INNER'' \<mapsto> [LINE (attribs None ''A'') (1, 0, 0) (2, 0, 0)],
                ''OUTER'' \<mapsto> [INSERT (attribs None ''A'') ''INNER'' (Some (scale 2 2 2))]],
      modelspace = [INSERT (attribs None ''A'') ''OUTER'' (Some (translate 10 0 0))]\<rparr>"

text \<open>A layer table whose layer \<open>0\<close> has the lineweight DEFAULT.\<close>

definition sentinel_layers :: "string \<rightharpoonup> layer_entry" where
  "sentinel_layers = [''0'' \<mapsto> (plain_layer 7)\<lparr>lay_lineweight := Some (- 3)\<rparr>]"





definition line_prim :: primitive where
  "line_prim =
     \<lparr>tipo = ''LINE'', layer = ''A'', color = (255, 255, 255),
      data = \<lparr>lw = 50, lw_raw = 50, lt = ''CONTINUOUS'', lt_raw = ''BYLAYER'', geom = LineG 0 0 10 5\<rparr>,
      is_block = False, block_name = None\<rparr>"

definition circle_prim :: primitive where
  "circle_prim =
     \<lparr>tipo = ''CIRCLE'', layer = ''A'', color = (255, 255, 255),
      data = \<lparr>lw = 0, lw_raw = 0, lt = ''CONTINUOUS'', lt_raw = ''BYLAYER'', geom = CircleG 5 5 2\<rparr>,
      is_block = False, block_name = None\<rparr>"

definition arc_prim :: primitive where
  "arc_prim =
     \<lparr>tipo = ''ARC'', layer = ''A'', color = (255, 255, 255),
      data = \<lparr>lw = 0, lw_raw = 0, lt = ''CONTINUOUS'', lt_raw = ''BYLAYER'', geom = ArcG 5 5 2 0 90\<rparr>,
      is_block = False, block_name = None\<rparr>"

section \<open>Properties of the extraction pass\<close>

lemmas run_defs =
  extraer_primitivas_basicas_def default_options_def entity_to_prims.simps limit_hit_def
  entidad_visible_def layer_is_visible_def plain_layer_def attribs_def effective_color_def
  color_from_aci_def sample_palette_def add_primitive_def base_data_def translate_def scale_def
  apply_point_def Let_def

lemma fold_preserves:
  assumes "\<And>x s. x \<in> set xs \<Longrightarrow> P s \<Longrightarrow> P (f x s)" and "P s"
  shows "P (fold f xs s)"
  using assms by (induction xs arbitrary: s) auto

lemma entity_to_prims_stops:
  "stops opts doc e st \<Longrightarrow> entity_to_prims pal opts doc e tr depth bname byb st = st"
  by (subst entity_to_prims.simps) (auto simp: stops_def)

lemma entity_to_prims_INSERT:
  "entity_to_prims pal opts doc (INSERT a name m) tr depth bname byb st =
     (if stops opts doc (INSERT a name m) st \<or> \<not> expand_blocks opts \<or> 8 < depth then st
      else if max_block_repeats opts < repeats_of name st then count_block name st
      else
        (case blocks doc name of
           None \<Rightarrow> count_block name st
         | Some blk \<Rightarrow>
             (case next_transform tr m of
                None \<Rightarrow> count_block name st
              | Some nt \<Rightarrow>
                  fold (\<lambda>be. entity_to_prims pal opts doc be nt (depth + 1) (Some name)
                               (Some (effective_color pal (layers doc) a None))) blk (count_block name st))))"
  by (subst entity_to_prims.simps)
     (simp add: stops_def Let_def next_transform_def count_block_def repeats_of_def split: option.splits)

lemma entity_to_prims_leaf:
  "\<forall>a name m. e \<noteq> INSERT a name m \<Longrightarrow>
   entity_to_prims pal opts doc e tr depth bname byb st =
     (if stops opts doc e st then st
      else (case entity_geometry opts e tr of
              None \<Rightarrow> st
            | Some (tp, g) \<Rightarrow>
                add_primitive tp (dxf_layer (dxf e))
                  (effective_color pal (layers doc) (dxf e) byb)
                  (base_data (layers doc) (dxf e) g) (bname \<noteq> None) bname st))"
  by (subst entity_to_prims.simps) (cases e; simp add: stops_def)

text \<open>
  Induction over the calls of \<^verbatim>\<open>entity_to_prims\<close>: the hypothesis is available for
  every entity of the block of an Insert that is expanded, at the next depth and in
  any state.
\<close>

lemma entity_to_prims_hyps:
  assumes step: "\<And>pal opts doc e tr (depth::nat) bname byb st.
     (\<And>a name m blk nt be s.
        \<not> stops opts doc e st \<Longrightarrow> e = INSERT a name m \<Longrightarrow> expand_blocks opts \<Longrightarrow> \<not> 8 < depth \<Longrightarrow>
        \<not> max_block_repeats opts < repeats_of name st \<Longrightarrow> blocks doc name = Some blk \<Longrightarrow>
        next_transform tr m = Some nt \<Longrightarrow> be \<in> set blk \<Longrightarrow>
        P pal opts doc be nt (depth + 1) (Some name) (Some (effective_color pal (layers doc) a None)) s)
     \<Longrightarrow> P pal opts doc e tr depth bname byb st"
  shows "P pal opts doc e tr depth bname byb st"
proof (induction pal opts doc e tr depth bname byb st rule: entity_to_prims.induct)
  case (1 pal opts doc e tr depth bname byb st)
  show ?case
  proof (rule step)
    fix a name m blk nt be s
    assume h: "\<not> stops opts doc e st" "e = INSERT a name m" "expand_blocks opts" "\<not> 8 < depth"
      "\<not> max_block_repeats opts < repeats_of name st" "blocks doc name = Some blk"
      "next_transform tr m = Some nt" "be \<in> set blk"
    show "P pal opts doc be nt (depth + 1) (Some name) (Some (effective_color pal (layers doc) a None)) s"
    proof (cases tr)
      case None
      with h have "nt = m" by (simp add: next_transform_def)
      with None h show ?thesis
        using "1.IH"(1)[of a name m _ _ _ blk be s]
        by (simp add: stops_def repeats_of_def)
    next
      case (Some T)
      with h obtain M where M: "m = Some M" "nt = Some (matmul T M)"
        by (auto simp: next_transform_def split: option.splits)
      with Some h show ?thesis
        using "1.IH"(2)[of a name m _ _ _ blk T M be s]
        by (simp add: stops_def repeats_of_def)
    qed
  qed
qed

lemma ext_inv_count_block [simp]: "ext_inv opts (count_block name st) = ext_inv opts st"
  by (simp add: ext_inv_def count_block_def)

lemma ext_inv_add:
  "ext_inv opts st \<Longrightarrow> \<not> max_total_after_blocks opts \<le> cuenta st \<Longrightarrow>
   ext_inv opts (add_primitive tp l c d b n st)"
  by (auto simp: ext_inv_def add_primitive_def)

lemma entity_to_prims_inv:
  "ext_inv opts st \<Longrightarrow> ext_inv opts (entity_to_prims pal opts doc e tr depth bname byb st)"
proof (induction pal opts doc e tr depth bname byb st rule: entity_to_prims_hyps)
  case (1 pal opts doc e tr depth bname byb st)
  show ?case
  proof (cases "stops opts doc e st")
    case True
    with "1.prems" show ?thesis by (simp add: entity_to_prims_stops)
  next
    case go: False
    show ?thesis
    proof (cases "\<exists>a name m. e = INSERT a name m")
      case True
      then obtain a name m where e: "e = INSERT a name m" by blast
      have inner: "ext_inv opts (fold (\<lambda>be. entity_to_prims pal opts doc be nt (depth + 1) (Some name)
                               (Some (effective_color pal (layers doc) a None))) blk (count_block name st))"
        if "expand_blocks opts" "\<not> 8 < depth" "\<not> max_block_repeats opts < repeats_of name st"
           "blocks doc name = Some blk" "next_transform tr m = Some nt" for blk nt
      proof (rule fold_preserves)
        show "ext_inv opts (count_block name st)" using "1.prems" by simp
      next
        fix be s assume "be \<in> set blk" "ext_inv opts s"
        then show "ext_inv opts (entity_to_prims pal opts doc be nt (depth + 1) (Some name)
                               (Some (effective_color pal (layers doc) a None)) s)"
          using "1.IH"[OF go e that(1,2,3,4,5)] by blast
      qed
      show ?thesis
        unfolding e entity_to_prims_INSERT
        using "1.prems" inner
        by (simp split: option.splits)
    next
      case False
      then have leaf: "\<forall>a name m. e \<noteq> INSERT a name m" by blast
      from go have "\<not> max_total_after_blocks opts \<le> cuenta st" by (simp add: stops_def)
      then show ?thesis
        using "1.prems" go
        by (simp add: entity_to_prims_leaf[OF leaf] ext_inv_add split: option.splits prod.splits)
    qed
  qed
qed

lemma recorrido_inv:
  "ext_inv opts st \<Longrightarrow> ext_inv opts (recorrido pal opts doc msp st)"
  by (induction msp arbitrary: st) (auto simp: Let_def entity_to_prims_inv)

text \<open>
  C4. Whatever the document and the options, with a cap that is not negative, the
  list the pass returns has at most \<^verbatim>\<open>max_total_after_blocks\<close> primitives: the counter
  is the length of the list, every call tests it against the cap before it adds its
  one primitive, and blocks add only through such calls.
\<close>

theorem extraction_within_hard_cap:
  "0 \<le> max_total_after_blocks opts \<Longrightarrow>
   int (length (extraer_primitivas_basicas pal opts doc)) \<le> max_total_after_blocks opts"
  using recorrido_inv[of opts "\<lparr>prims = [], cuenta = 0, block_repeats = Map.empty\<rparr>" pal doc "modelspace doc"]
  by (simp add: extraer_primitivas_basicas_def ext_inv_def)

text \<open>
  The block that inserts itself twice, under a cap of three: the pass returns the
  three lines it reached first.
\<close>

theorem extraction_within_hard_cap_witness:
  "0 \<le> max_total_after_blocks (default_options\<lparr>max_total_after_blocks := 3\<rparr>) \<and>
   int (length (extraer_primitivas_basicas sample_palette
          (default_options\<lparr>max_total_after_blocks := 3\<rparr>) growth_doc))
     \<le> max_total_after_blocks (default_options\<lparr>max_total_after_blocks := 3\<rparr>) \<and>
   map (geom \<circ> data) (extraer_primitivas_basicas sample_palette
          (default_options\<lparr>max_total_after_blocks := 3\<rparr>) growth_doc)
     = [LineG 0 0 1 0, LineG 1 0 2 0, LineG 2 0 3 0]"
proof -
  have cap: "0 \<le> max_total_after_blocks (default_options\<lparr>max_total_after_blocks := 3\<rparr>)"
    by simp
  have run: "map (geom \<circ> data) (extraer_primitivas_basicas sample_palette
          (default_options\<lparr>max_total_after_blocks := 3\<rparr>) growth_doc)
     = [LineG 0 0 1 0, LineG 1 0 2 0, LineG 2 0 3 0]"
    by (simp add: run_defs growth_doc_def)
  from cap run extraction_within_hard_cap[OF cap, of sample_palette growth_doc]
  show ?thesis by blast
qed









lemma limit_hit_off:
  "limitar opts = Some 0 \<or> limitar opts = None \<Longrightarrow> limit_hit opts st = False"
  by (auto simp: limit_hit_def)

lemma entity_geometry_limitar [simp]:
  "entity_geometry (opts\<lparr>limitar := l\<rparr>) e tr = entity_geometry opts e tr"
  by (cases e) simp_all

lemma stops_limitar:
  "limitar opts = Some 0 \<or> limitar opts = None \<Longrightarrow>
   stops (opts\<lparr>limitar := None\<rparr>) doc e st = stops opts doc e st"
  by (auto simp: stops_def limit_hit_def)

lemma entity_to_prims_limitar:
  "limitar opts = Some 0 \<or> limitar opts = None \<Longrightarrow>
   entity_to_prims pal opts doc e tr depth bname byb st =
   entity_to_prims pal (opts\<lparr>limitar := None\<rparr>) doc e tr depth bname byb st"
proof (induction pal opts doc e tr depth bname byb st rule: entity_to_prims_hyps)
  case (1 pal opts doc e tr depth bname byb st)
  note off = "1.prems"
  show ?case
  proof (cases "stops opts doc e st")
    case True
    then show ?thesis
      using stops_limitar[OF off, of doc e st] by (simp add: entity_to_prims_stops)
  next
    case go: False
    show ?thesis
    proof (cases "\<exists>a name m. e = INSERT a name m")
      case True
      then obtain a name m where e: "e = INSERT a name m" by blast
      have inner: "fold (\<lambda>be. entity_to_prims pal opts doc be nt (depth + 1) (Some name)
                               (Some (effective_color pal (layers doc) a None))) blk s0
                 = fold (\<lambda>be. entity_to_prims pal (opts\<lparr>limitar := None\<rparr>) doc be nt (depth + 1) (Some name)
                               (Some (effective_color pal (layers doc) a None))) blk s0"
        if "expand_blocks opts" "\<not> 8 < depth" "\<not> max_block_repeats opts < repeats_of name st"
           "blocks doc name = Some blk" "next_transform tr m = Some nt" for blk nt s0
        by (rule fold_cong[OF refl refl]) (use "1.IH"[OF go e that(1,2,3,4,5) _ off] in blast)
      show ?thesis
        unfolding e entity_to_prims_INSERT
        using inner stops_limitar[OF off, of doc "INSERT a name m" st]
        by (simp split: option.splits)
    next
      case False
      then have leaf: "\<forall>a name m. e \<noteq> INSERT a name m" by blast
      show ?thesis
        using stops_limitar[OF off, of doc e st]
        by (simp add: entity_to_prims_leaf[OF leaf])
    qed
  qed
qed

lemma recorrido_limitar:
  "limitar opts = Some 0 \<or> limitar opts = None \<Longrightarrow>
   recorrido pal opts doc msp st = recorrido pal (opts\<lparr>limitar := None\<rparr>) doc msp st"
proof (induction msp arbitrary: st)
  case Nil
  show ?case by simp
next
  case (Cons ent msp)
  have none: "limit_hit (opts\<lparr>limitar := None\<rparr>) s = False" for s
    by (simp add: limit_hit_def)
  show ?case
    using Cons.IH[OF Cons.prems] entity_to_prims_limitar[OF Cons.prems]
    by (simp add: Let_def limit_hit_off[OF Cons.prems] none)
qed

lemma line_step:
  assumes "visible_line doc e" "\<not> limit_hit opts st" "\<not> max_total_after_blocks opts \<le> cuenta st"
  shows "\<exists>p. entity_to_prims pal opts doc e tr depth bname byb st =
              st\<lparr>prims := prims st @ [p], cuenta := cuenta st + 1\<rparr>"
proof (cases e)
  case (LINE a s t)
  with assms have vis: "entidad_visible doc (LINE a s t)" by simp
  have "entity_to_prims pal opts doc (LINE a s t) tr depth bname byb st =
     (if stops opts doc (LINE a s t) st then st
      else (case entity_geometry opts (LINE a s t) tr of
              None \<Rightarrow> st
            | Some (tp, g) \<Rightarrow>
                add_primitive tp (dxf_layer (dxf (LINE a s t)))
                  (effective_color pal (layers doc) (dxf (LINE a s t)) byb)
                  (base_data (layers doc) (dxf (LINE a s t)) g) (bname \<noteq> None) bname st))"
    by (rule entity_to_prims_leaf) simp
  with assms(2,3) vis show ?thesis
    unfolding LINE by (simp add: stops_def Let_def add_primitive_def) (rule exI, rule refl)
qed (use assms in simp_all)

lemma recorrido_lines:
  assumes off: "limitar opts = Some 0 \<or> limitar opts = None"
  shows "list_all (visible_line doc) msp \<Longrightarrow> cuenta st = int (length (prims st)) \<Longrightarrow>
     int (length (prims (recorrido pal opts doc msp st))) =
       (if msp = [] \<or> max_total_after_blocks opts \<le> cuenta st then cuenta st
        else min (cuenta st + int (length msp)) (max_total_after_blocks opts))"
proof (induction msp arbitrary: st)
  case Nil
  then show ?case by simp
next
  case (Cons e msp)
  have nolim: "limit_hit opts s = False" for s
    using off by (auto simp: limit_hit_def)
  show ?case
  proof (cases "max_total_after_blocks opts \<le> cuenta st")
    case True
    then have "entity_to_prims pal opts doc e None 0 None None st = st"
      by (simp add: entity_to_prims_stops stops_def)
    with True Cons.prems show ?thesis by (simp add: nolim)
  next
    case False
    from Cons.prems have "visible_line doc e" by simp
    from line_step[OF this _ False, of pal None 0 None None] nolim
    obtain p where st': "entity_to_prims pal opts doc e None 0 None None st =
              st\<lparr>prims := prims st @ [p], cuenta := cuenta st + 1\<rparr>"
      by auto
    let ?st' = "st\<lparr>prims := prims st @ [p], cuenta := cuenta st + 1\<rparr>"
    have inv': "cuenta ?st' = int (length (prims ?st'))" using Cons.prems by simp
    have all: "list_all (visible_line doc) msp" using Cons.prems by simp
    show ?thesis
    proof (cases "max_total_after_blocks opts \<le> cuenta st + 1")
      case True
      with False st' Cons.prems(2) show ?thesis by (simp add: nolim)
    next
      case nf: False
      with False st' Cons.IH[OF all inv'] Cons.prems(2) show ?thesis
        by (auto simp: nolim)
    qed
  qed
qed

text \<open>
  C10. With \<^verbatim>\<open>limitar=0\<close>, as with \<^verbatim>\<open>limitar=None\<close>, the test on \<^verbatim>\<open>limitar\<close> holds in
  no state, where a limit other than 0 cuts as soon as the counter reaches it. The
  pass with \<^verbatim>\<open>limitar=0\<close> returns what the pass with \<^verbatim>\<open>limitar=None\<close> returns, whatever
  the document and the other options. On a model space of visible lines it returns
  all of them up to \<^verbatim>\<open>max_total_after_blocks\<close>, the only bound left: the result is
  not empty, and not cut short, because of \<^verbatim>\<open>limitar\<close>.
\<close>

theorem limitar_zero_is_no_limit:
  "limit_hit (opts\<lparr>limitar := Some 0\<rparr>) st = False \<and>
   limit_hit (opts\<lparr>limitar := None\<rparr>) st = False \<and>
   (l \<noteq> 0 \<longrightarrow> limit_hit (opts\<lparr>limitar := Some l\<rparr>) st = (l \<le> cuenta st)) \<and>
   extraer_primitivas_basicas pal (opts\<lparr>limitar := Some 0\<rparr>) doc =
     extraer_primitivas_basicas pal (opts\<lparr>limitar := None\<rparr>) doc \<and>
   (list_all (visible_line doc) (modelspace doc) \<and> 0 \<le> max_total_after_blocks opts \<longrightarrow>
      int (length (extraer_primitivas_basicas pal (opts\<lparr>limitar := Some 0\<rparr>) doc)) =
        min (int (length (modelspace doc))) (max_total_after_blocks opts))"
proof -
  have never: "limit_hit (opts\<lparr>limitar := Some 0\<rparr>) st = False \<and>
      limit_hit (opts\<lparr>limitar := None\<rparr>) st = False"
    by (simp add: limit_hit_def)
  have cuts: "l \<noteq> 0 \<longrightarrow> limit_hit (opts\<lparr>limitar := Some l\<rparr>) st = (l \<le> cuenta st)"
    by (simp add: limit_hit_def)
  have same: "extraer_primitivas_basicas pal (opts\<lparr>limitar := Some 0\<rparr>) doc =
     extraer_primitivas_basicas pal (opts\<lparr>limitar := None\<rparr>) doc"
    using recorrido_limitar[of "opts\<lparr>limitar := Some 0\<rparr>" pal doc "modelspace doc"]
    by (simp add: extraer_primitivas_basicas_def)
  have all: "list_all (visible_line doc) (modelspace doc) \<and> 0 \<le> max_total_after_blocks opts \<longrightarrow>
      int (length (extraer_primitivas_basicas pal (opts\<lparr>limitar := Some 0\<rparr>) doc)) =
        min (int (length (modelspace doc))) (max_total_after_blocks opts)"
    using recorrido_lines[of "opts\<lparr>limitar := Some 0\<rparr>" doc "modelspace doc"
        "\<lparr>prims = [], cuenta = 0, block_repeats = Map.empty\<rparr>" pal]
    by (auto simp: extraer_primitivas_basicas_def)
  from never cuts same all show ?thesis by blast
qed

text \<open>
  The drawing of three lines: all three are returned with \<^verbatim>\<open>limitar=0\<close>, and one
  with \<^verbatim>\<open>limitar=1\<close>, whose test holds once the counter is 1.
\<close>

theorem limitar_zero_is_no_limit_witness:
  "list_all (visible_line lines_doc) (modelspace lines_doc) \<and>
   0 \<le> max_total_after_blocks default_options \<and>
   int (length (extraer_primitivas_basicas sample_palette (default_options\<lparr>limitar := Some 0\<rparr>) lines_doc)) = 3 \<and>
   extraer_primitivas_basicas sample_palette (default_options\<lparr>limitar := Some 0\<rparr>) lines_doc =
     extraer_primitivas_basicas sample_palette (default_options\<lparr>limitar := None\<rparr>) lines_doc \<and>
   map (geom \<circ> data) (extraer_primitivas_basicas sample_palette (default_options\<lparr>limitar := Some 0\<rparr>) lines_doc)
     = [LineG 0 0 1 0, LineG 0 1 1 1, LineG 0 2 1 2] \<and>
   (1::int) \<noteq> 0 \<and>
   limit_hit (default_options\<lparr>limitar := Some 1\<rparr>) (initial_state\<lparr>cuenta := 1\<rparr>) \<and>
   map (geom \<circ> data) (extraer_primitivas_basicas sample_palette (default_options\<lparr>limitar := Some 1\<rparr>) lines_doc)
     = [LineG 0 0 1 0]"
proof -
  have vis: "list_all (visible_line lines_doc) (modelspace lines_doc)"
    by (simp add: lines_doc_def entidad_visible_def layer_is_visible_def attribs_def)
  have cap: "0 \<le> max_total_after_blocks default_options"
    by (simp add: default_options_def)
  note inst = limitar_zero_is_no_limit[where opts = default_options and doc = lines_doc
      and pal = sample_palette and l = 1 and st = "initial_state\<lparr>cuenta := 1\<rparr>"]
  from inst have imp:
    "list_all (visible_line lines_doc) (modelspace lines_doc) \<and> 0 \<le> max_total_after_blocks default_options \<longrightarrow>
      int (length (extraer_primitivas_basicas sample_palette (default_options\<lparr>limitar := Some 0\<rparr>) lines_doc)) =
        min (int (length (modelspace lines_doc))) (max_total_after_blocks default_options)"
    by blast
  have len: "int (length (modelspace lines_doc)) = 3"
    by (simp add: lines_doc_def)
  have capv: "max_total_after_blocks default_options = 250000"
    by (simp add: default_options_def)
  from imp vis cap have three:
    "int (length (extraer_primitivas_basicas sample_palette (default_options\<lparr>limitar := Some 0\<rparr>) lines_doc)) = 3"
    by (simp add: len capv)
  from inst have same:
    "extraer_primitivas_basicas sample_palette (default_options\<lparr>limitar := Some 0\<rparr>) lines_doc =
     extraer_primitivas_basicas sample_palette (default_options\<lparr>limitar := None\<rparr>) lines_doc"
    by blast
  from inst have hit: "limit_hit (default_options\<lparr>limitar := Some 1\<rparr>) (initial_state\<lparr>cuenta := 1\<rparr>)"
    by (simp add: initial_state_def)
  have runs: "map (geom \<circ> data) (extraer_primitivas_basicas sample_palette (default_options\<lparr>limitar := Some 0\<rparr>) lines_doc)
     = [LineG 0 0 1 0, LineG 0 1 1 1, LineG 0 2 1 2] \<and>
   map (geom \<circ> data) (extraer_primitivas_basicas sample_palette (default_options\<lparr>limitar := Some 1\<rparr>) lines_doc)
     = [LineG 0 0 1 0]"
    by (simp add: run_defs lines_doc_def)
  from vis cap three same hit runs show ?thesis by simp
qed

text \<open>
  C1. On the drawing \<open>byblock_doc\<close> the line, two Inserts deep with no explicit colour
  between it and the red outermost Insert, is emitted white: the colour handed to the
  entities of a block is that of their Insert resolved without the colour the Insert
  itself inherits, so the inner Insert, BYBLOCK, falls back to its layer and, the
  lookup of the layer failing, to the colour 7. The colour the outermost Insert
  resolves to is red.
\<close>

theorem nested_byblock_loses_outer_colour:
  "map color (extraer_primitivas_basicas sample_palette default_options byblock_doc) = [(255, 255, 255)] \<and>
   effective_color sample_palette (layers byblock_doc) (attribs (Some 1) ''A'') None = (255, 0, 0)"
  by (simp add: run_defs byblock_doc_def)

text \<open>
  C2. On the drawing \<open>hatch_doc\<close> the line of the block is emitted at the place of the
  Insert, and the hatch of the same block with the coordinates of the block: the
  loops of a hatch are built without the transform, so that the geometry of a hatch
  is the same under every transform.
\<close>

theorem hatch_loops_stay_block_local:
  "map (geom \<circ> data) (extraer_primitivas_basicas sample_palette default_options hatch_doc) =
     [LineG 10 20 11 20, HatchG [[(0, 0), (1, 0), (1, 1), (0, 0)]] True] \<and>
   entity_geometry opts (HATCH a paths solid_fill) tr = entity_geometry opts (HATCH a paths solid_fill) None"
  by (simp add: run_defs hatch_doc_def hatch_path_def)

text \<open>
  The transform the pass hands down is the product of the accumulated transform with
  the matrix of the Insert, in that order; on a row vector it is the accumulated
  transform that acts first.
\<close>

lemma transform_matmul:
  "affine A \<Longrightarrow> transform (matmul A B) p = transform B (transform A p)"
  by (cases A; cases B; cases p) (auto simp: algebra_simps)

text \<open>
  C3. On the drawing \<open>nested_doc\<close> the line from \<open>(1, 0)\<close> to \<open>(2, 0)\<close> is emitted from
  \<open>(22, 0)\<close> to \<open>(24, 0)\<close>: moved by the outer placement first and doubled by the inner
  one after. The inner placement first and the outer one after give \<open>(12, 0)\<close> and
  \<open>(14, 0)\<close>.
\<close>

theorem nested_insert_applies_outer_first:
  "map (geom \<circ> data) (extraer_primitivas_basicas sample_palette default_options nested_doc) =
     [LineG 22 0 24 0] \<and>
   transform (translate 10 0 0) (transform (scale 2 2 2) (1, 0, 0)) = (12, 0, 0) \<and>
   transform (translate 10 0 0) (transform (scale 2 2 2) (2, 0, 0)) = (14, 0, 0)"
  by (simp add: run_defs nested_doc_def)

section \<open>Properties of the attribute resolver\<close>

text \<open>
  C6, as the code has it. The lineweight the resolver returns is never BYLAYER,
  BYBLOCK or DEFAULT. A reserved or absent value of the entity is replaced by the
  lineweight of its layer, or by 0 when that is itself reserved or absent, both with
  the source \<open>LAYER\<close>; only a failed layer lookup gives 0 with the source \<open>DEFAULT\<close>.
  Any other value of the entity is returned as it is, with the source \<open>ENTITY\<close>. The
  result is not negative when neither the entity nor its layer holds a value below
  \<open>-3\<close>.
\<close>

theorem effective_lineweight_resolved: 
  "fst (effective_lineweight lays e) \<noteq> - 1 \<and> fst (effective_lineweight lays e) \<noteq> - 2 \<and>
   fst (effective_lineweight lays e) \<noteq> - 3 \<and>
   (specials (dxf_lineweight e) \<longrightarrow>
      (case lays (dxf_layer e) of
         None \<Rightarrow> effective_lineweight lays e = (0, ''DEFAULT'')
       | Some lay \<Rightarrow>
           effective_lineweight lays e =
             (if specials (lay_lineweight lay) then 0 else int_or_0 (lay_lineweight lay), ''LAYER''))) \<and>
   (\<not> specials (dxf_lineweight e) \<longrightarrow>
      effective_lineweight lays e = (int_or_0 (dxf_lineweight e), ''ENTITY'')) \<and>
   ((\<forall>v. dxf_lineweight e = Some v \<longrightarrow> - 3 \<le> v) \<and>
    (\<forall>lay v. lays (dxf_layer e) = Some lay \<and> lay_lineweight lay = Some v \<longrightarrow> - 3 \<le> v) \<longrightarrow>
      0 \<le> fst (effective_lineweight lays e))"
proof -
  have s: "fst (effective_lineweight lays e) \<noteq> - 1 \<and> fst (effective_lineweight lays e) \<noteq> - 2 \<and>
   fst (effective_lineweight lays e) \<noteq> - 3"
    by (auto simp: effective_lineweight_def specials_def int_or_0_def Let_def split: option.splits)
  have l: "specials (dxf_lineweight e) \<longrightarrow>
      (case lays (dxf_layer e) of
         None \<Rightarrow> effective_lineweight lays e = (0, ''DEFAULT'')
       | Some lay \<Rightarrow>
           effective_lineweight lays e =
             (if specials (lay_lineweight lay) then 0 else int_or_0 (lay_lineweight lay), ''LAYER''))"
    by (auto simp: effective_lineweight_def specials_def int_or_0_def Let_def split: option.splits)
  have n: "\<not> specials (dxf_lineweight e) \<longrightarrow>
      effective_lineweight lays e = (int_or_0 (dxf_lineweight e), ''ENTITY'')"
    by (simp add: effective_lineweight_def Let_def)
  have p: "(\<forall>v. dxf_lineweight e = Some v \<longrightarrow> - 3 \<le> v) \<and>
    (\<forall>lay v. lays (dxf_layer e) = Some lay \<and> lay_lineweight lay = Some v \<longrightarrow> - 3 \<le> v) \<longrightarrow>
      0 \<le> fst (effective_lineweight lays e)"
    by (auto simp: effective_lineweight_def specials_def int_or_0_def Let_def split: option.splits)
  from s l n p show ?thesis by blast
qed

text \<open>
  On a layer whose lineweight is DEFAULT an entity of lineweight BYLAYER resolves to 0
  with the source \<open>LAYER\<close>, not \<open>DEFAULT\<close>; an entity of lineweight \<open>-4\<close> resolves to
  \<open>-4\<close>.
\<close>

theorem effective_lineweight_counterexample:
  "effective_lineweight sentinel_layers ((attribs None ''0'')\<lparr>dxf_lineweight := Some (- 1)\<rparr>) = (0, ''LAYER'') \<and>
   effective_lineweight sentinel_layers ((attribs None ''0'')\<lparr>dxf_lineweight := Some (- 4)\<rparr>) = (- 4, ''ENTITY'')"
  by (simp add: effective_lineweight_def sentinel_layers_def attribs_def plain_layer_def specials_def int_or_0_def)

text \<open>An entity of lineweight BYLAYER and one of lineweight 25 on that layer.\<close>

theorem effective_lineweight_resolved_witness:
  "fst (effective_lineweight sentinel_layers ((attribs None ''0'')\<lparr>dxf_lineweight := Some (- 1)\<rparr>)) \<noteq> - 1 \<and>
   effective_lineweight sentinel_layers ((attribs None ''0'')\<lparr>dxf_lineweight := Some (- 1)\<rparr>) = (0, ''LAYER'') \<and>
   effective_lineweight sentinel_layers ((attribs None ''0'')\<lparr>dxf_lineweight := Some 25\<rparr>) = (25, ''ENTITY'') \<and>
   0 \<le> fst (effective_lineweight sentinel_layers ((attribs None ''0'')\<lparr>dxf_lineweight := Some (- 1)\<rparr>))"
  using effective_lineweight_resolved[of sentinel_layers "(attribs None ''0'')\<lparr>dxf_lineweight := Some (- 1)\<rparr>"]
        effective_lineweight_resolved[of sentinel_layers "(attribs None ''0'')\<lparr>dxf_lineweight := Some 25\<rparr>"]
  by (simp add: sentinel_layers_def attribs_def plain_layer_def specials_def int_or_0_def)

section \<open>Properties of the rendering policy and of the extents\<close>







lemma fold_fold_concat: "fold (fold f) xss b = fold f (concat xss) b"
  by (induction xss arbitrary: b) simp_all

lemma fold_upd_fin:
  "fold (\<lambda>(x, y). upd x y) pts (Fin a, Fin b, Fin c, Fin d) =
     (Fin (fold min (map fst pts) a), Fin (fold min (map snd pts) b),
      Fin (fold max (map fst pts) c), Fin (fold max (map snd pts) d))"
  by (induction pts arbitrary: a b c d) (auto simp: min.commute max.commute)

lemma fold_upd_init:
  "fold (\<lambda>(x, y). upd x y) pts (PosInf, PosInf, NegInf, NegInf) =
     (case spanned_extents pts of None \<Rightarrow> (PosInf, PosInf, NegInf, NegInf) | Some b \<Rightarrow> b)"
proof (cases pts)
  case Nil
  then show ?thesis by (simp add: spanned_extents_def)
next
  case (Cons q rest)
  obtain x0 y0 where q: "q = (x0, y0)" by (cases q)
  have "fold (\<lambda>(x, y). upd x y) pts (PosInf, PosInf, NegInf, NegInf) =
        fold (\<lambda>(x, y). upd x y) rest (Fin x0, Fin y0, Fin x0, Fin y0)"
    by (simp add: Cons q)
  also have "\<dots> = (Fin (fold min (map fst rest) x0), Fin (fold min (map snd rest) y0),
      Fin (fold max (map fst rest) x0), Fin (fold max (map snd rest) y0))"
    by (rule fold_upd_fin)
  also have "\<dots> = (Fin (Min (set (map fst pts))), Fin (Min (set (map snd pts))),
                 Fin (Max (set (map fst pts))), Fin (Max (set (map snd pts))))"
    using Min.set_eq_fold[of x0 "map fst rest"] Min.set_eq_fold[of y0 "map snd rest"]
          Max.set_eq_fold[of x0 "map fst rest"] Max.set_eq_fold[of y0 "map snd rest"]
    by (simp add: Cons q)
  finally show ?thesis by (simp add: spanned_extents_def Cons)
qed

lemma extents_step_points:
  "extents_step p b = fold (\<lambda>(x, y). upd x y) (governing_points p) b"
  by (cases "geom (data p)") (auto simp: extents_step_def governing_points_def fold_fold_concat Let_def)

lemma fold_extents_step:
  "fold extents_step ps b = fold (\<lambda>(x, y). upd x y) (concat (map governing_points ps)) b"
  by (induction ps arbitrary: b) (simp_all add: extents_step_points)

lemma extents_are_spanned:
  "calcular_extents_primitivas ps = spanned_extents (concat (map governing_points ps))"
proof -
  let ?pts = "concat (map governing_points ps)"
  have f: "fold extents_step ps (PosInf, PosInf, NegInf, NegInf) =
     (case spanned_extents ?pts of None \<Rightarrow> (PosInf, PosInf, NegInf, NegInf) | Some b \<Rightarrow> b)"
    by (simp only: fold_extents_step fold_upd_init)
  show ?thesis
  proof (cases "?pts = []")
    case True
    then show ?thesis
      unfolding calcular_extents_primitivas_def f by (simp add: spanned_extents_def)
  next
    case False
    then show ?thesis
      unfolding calcular_extents_primitivas_def f by (simp add: spanned_extents_def)
  qed
qed

text \<open>
  C8. The extents of no primitive are \<open>None\<close>; those of one line from \<open>(0, 0)\<close> to
  \<open>(10, 5)\<close> are \<open>(0, 0, 10, 5)\<close>; those of one circle, and of one arc whatever its
  angles, are the square of the centre plus and minus the radius. Wherever a circle
  or an arc stands in the sequence it widens the bounds reached so far by the two
  corners of that square, the angles of the arc playing no part. The extents of a
  sequence are those spanned by the governing points of all of its primitives.
\<close>

theorem extents_of_primitives:
  "calcular_extents_primitivas [] = None \<and>
   (tipo p = ''LINE'' \<and> geom (data p) = LineG 0 0 10 5 \<longrightarrow>
      calcular_extents_primitivas [p] = Some (Fin 0, Fin 0, Fin 10, Fin 5)) \<and>
   ((tipo q = ''CIRCLE'' \<and> geom (data q) = CircleG cx cy r \<or>
     tipo q = ''ARC'' \<and> geom (data q) = ArcG cx cy r start_angle end_angle) \<and> 0 \<le> r \<longrightarrow>
      calcular_extents_primitivas [q] = Some (Fin (cx - r), Fin (cy - r), Fin (cx + r), Fin (cy + r))) \<and>
   ((tipo q = ''CIRCLE'' \<or> tipo q = ''ARC'') \<and>
    (geom (data q) = CircleG cx cy r \<or> geom (data q) = ArcG cx cy r start_angle end_angle) \<longrightarrow>
      extents_step q b = upd (cx + r) (cy + r) (upd (cx - r) (cy - r) b)) \<and>
   calcular_extents_primitivas ps = spanned_extents (concat (map governing_points ps))"
proof -
  have single: "calcular_extents_primitivas [] = None \<and>
   (tipo p = ''LINE'' \<and> geom (data p) = LineG 0 0 10 5 \<longrightarrow>
      calcular_extents_primitivas [p] = Some (Fin 0, Fin 0, Fin 10, Fin 5)) \<and>
   ((tipo q = ''CIRCLE'' \<and> geom (data q) = CircleG cx cy r \<or>
     tipo q = ''ARC'' \<and> geom (data q) = ArcG cx cy r start_angle end_angle) \<and> 0 \<le> r \<longrightarrow>
      calcular_extents_primitivas [q] = Some (Fin (cx - r), Fin (cy - r), Fin (cx + r), Fin (cy + r)))"
    by (auto simp: calcular_extents_primitivas_def extents_step_def)
  have step: "(tipo q = ''CIRCLE'' \<or> tipo q = ''ARC'') \<and>
    (geom (data q) = CircleG cx cy r \<or> geom (data q) = ArcG cx cy r start_angle end_angle) \<longrightarrow>
      extents_step q b = upd (cx + r) (cy + r) (upd (cx - r) (cy - r) b)"
    by (auto simp: extents_step_def)
  from single step extents_are_spanned[of ps] show ?thesis by blast
qed

text \<open>
  The line, the circle and the quarter arc of the samples, alone and in a sequence;
  the arc after the line widens the bounds of the line to those of its whole circle.
\<close>

theorem extents_of_primitives_witness:
  "calcular_extents_primitivas [line_prim] = Some (Fin 0, Fin 0, Fin 10, Fin 5) \<and>
   calcular_extents_primitivas [circle_prim] = Some (Fin 3, Fin 3, Fin 7, Fin 7) \<and>
   calcular_extents_primitivas [arc_prim] = Some (Fin 3, Fin 3, Fin 7, Fin 7) \<and>
   extents_step arc_prim (Fin 4, Fin 4, Fin 5, Fin 5) = (Fin 3, Fin 3, Fin 7, Fin 7) \<and>
   governing_points arc_prim = [(3, 3), (7, 7)] \<and>
   calcular_extents_primitivas [line_prim, circle_prim, arc_prim] = Some (Fin 0, Fin 0, Fin 10, Fin 7)"
  using extents_of_primitives[of line_prim circle_prim 5 5 2 0 0 "(Fin 4, Fin 4, Fin 5, Fin 5)"
          "[line_prim, circle_prim, arc_prim]"]
        extents_of_primitives[of line_prim arc_prim 5 5 2 0 90 "(Fin 4, Fin 4, Fin 5, Fin 5)"
          "[line_prim, circle_prim, arc_prim]"]
  by (simp add: line_prim_def circle_prim_def arc_prim_def governing_points_def spanned_extents_def)

section \<open>Properties of the arc discretization\<close>

lemma add_turns_above: "lo < add_turns lo a"
proof (induction lo a rule: add_turns.induct)
  case (1 lo a)
  show ?case
  proof (cases "a \<le> lo")
    case True
    then have "add_turns lo a = add_turns lo (a + 2 * pi)"
      by (subst add_turns.simps) simp
    with 1 True show ?thesis by simp
  next
    case False
    then have "add_turns lo a = a"
      by (subst add_turns.simps) simp
    with False show ?thesis by simp
  qed
qed

lemma add_turns_whole: "\<exists>k::nat. add_turns lo a = a + real k * (2 * pi)"
proof (induction lo a rule: add_turns.induct)
  case (1 lo a)
  show ?case
  proof (cases "a \<le> lo")
    case True
    then have eq: "add_turns lo a = add_turns lo (a + 2 * pi)"
      by (subst add_turns.simps) simp
    from 1 True obtain k :: nat where "add_turns lo (a + 2 * pi) = a + 2 * pi + real k * (2 * pi)"
      by blast
    with eq have "add_turns lo a = a + real (Suc k) * (2 * pi)"
      by (simp add: algebra_simps)
    then show ?thesis by blast
  next
    case False
    then have "add_turns lo a = a + real (0::nat) * (2 * pi)"
      by (subst add_turns.simps) simp
    then show ?thesis by blast
  qed
qed

lemma add_turns_id: "lo < a \<Longrightarrow> add_turns lo a = a"
  by (subst add_turns.simps) simp

lemma add_turns_step: "a \<le> lo \<Longrightarrow> add_turns lo a = add_turns lo (a + 2 * pi)"
  by (subst add_turns.simps) simp

lemma discretizar_arco_nth:
  "i \<le> nat (max 4 seg) \<Longrightarrow>
   discretizar_arco cx cy r s e ccw seg ! i =
     (let (a0, a1) = arc_limits s e ccw;
          ang = a0 + (a1 - a0) * (real i / real (nat (max 4 seg)))
      in (cx + cos ang * r, cy + sin ang * r))"
proof -
  assume i: "i \<le> nat (max 4 seg)"
  obtain a0 a1 where lim: "arc_limits s e ccw = (a0, a1)"
    by (cases "arc_limits s e ccw")
  let ?f = "\<lambda>i. let t = real i / real (nat (max 4 seg)); ang = a0 + (a1 - a0) * t
                in (cx + cos ang * r, cy + sin ang * r)"
  have "discretizar_arco cx cy r s e ccw seg = map ?f [0 ..< nat (max 4 seg) + 1]"
    by (simp only: discretizar_arco_def lim Let_def prod.case)
  moreover have "map ?f [0 ..< nat (max 4 seg) + 1] ! i = ?f i"
  proof -
    have idx: "[0 ..< nat (max 4 seg) + 1] ! i = 0 + i"
      by (rule nth_upt) (use i in simp)
    have "i < length [0 ..< nat (max 4 seg) + 1]"
      using i by simp
    then have "map ?f [0 ..< nat (max 4 seg) + 1] ! i = ?f ([0 ..< nat (max 4 seg) + 1] ! i)"
      by (rule nth_map)
    then show ?thesis
      by (simp only: idx add_0)
  qed
  ultimately show ?thesis
    by (simp add: lim Let_def)
qed

lemma discretizar_arco_quarter: "discretizar_arco cx cy r 0 90 True 4 =
     map (\<lambda>k. (cx + cos (real k * (pi / 8)) * r, cy + sin (real k * (pi / 8)) * r)) [0, 1, 2, 3, 4]"
proof -
  have lim: "arc_limits 0 90 True = (0, pi / 2)"
    by (simp add: arc_limits_def radians_def add_turns_id)
  show ?thesis
    by (simp add: discretizar_arco_def lim Let_def upt_rec field_simps)
qed

text \<open>
  C9. With start 0, end 90, counter-clockwise and 4 segments the points are the five
  points at the angles \<open>k * pi / 8\<close> for \<open>k\<close> from 0 to 4: from \<open>(cx + r, cy)\<close> to
  \<open>(cx, cy + r)\<close>, a quarter turn in equal steps of growing angle. In general the
  limits between which the arc is sampled are ordered for the direction (the end
  above the start counter-clockwise, the start above the end clockwise) and differ
  from the given angles by whole turns added; the points are \<open>max 4 seg + 1\<close>, the
  \<open>i\<close>-th at the fraction \<open>i / max 4 seg\<close> of the way from the first limit to the
  second.
\<close>

theorem arc_discretization:
  "discretizar_arco cx cy r 0 90 True 4 =
     map (\<lambda>k. (cx + cos (real k * (pi / 8)) * r, cy + sin (real k * (pi / 8)) * r)) [0, 1, 2, 3, 4] \<and>
   discretizar_arco cx cy r 0 90 True 4 ! 0 = (cx + r, cy) \<and>
   discretizar_arco cx cy r 0 90 True 4 ! 4 = (cx, cy + r) \<and>
   fst (arc_limits s e True) < snd (arc_limits s e True) \<and>
   snd (arc_limits s e False) < fst (arc_limits s e False) \<and>
   (\<exists>k::nat. arc_limits s e True = (radians s, radians e + real k * (2 * pi))) \<and>
   (\<exists>k::nat. arc_limits s e False = (radians s + real k * (2 * pi), radians e)) \<and>
   length (discretizar_arco cx cy r s e ccw seg) = nat (max 4 seg) + 1 \<and>
   (i \<le> nat (max 4 seg) \<longrightarrow>
      discretizar_arco cx cy r s e ccw seg ! i =
        (let (a0, a1) = arc_limits s e ccw;
             ang = a0 + (a1 - a0) * (real i / real (nat (max 4 seg)))
         in (cx + cos ang * r, cy + sin ang * r)))"
proof -
  note q = discretizar_arco_quarter[of cx cy r]
  have first: "discretizar_arco cx cy r 0 90 True 4 ! 0 = (cx + r, cy)"
    by (simp add: q)
  have final: "discretizar_arco cx cy r 0 90 True 4 ! 4 = (cx, cy + r)"
    by (simp add: q)
  have up: "fst (arc_limits s e True) < snd (arc_limits s e True)"
    by (simp add: arc_limits_def Let_def add_turns_above)
  have down: "snd (arc_limits s e False) < fst (arc_limits s e False)"
    by (simp add: arc_limits_def Let_def add_turns_above)
  have tu: "\<exists>k::nat. arc_limits s e True = (radians s, radians e + real k * (2 * pi))"
    using add_turns_whole[of "radians s" "radians e"] by (simp add: arc_limits_def Let_def)
  have td: "\<exists>k::nat. arc_limits s e False = (radians s + real k * (2 * pi), radians e)"
    using add_turns_whole[of "radians e" "radians s"] by (simp add: arc_limits_def Let_def)
  have len: "length (discretizar_arco cx cy r s e ccw seg) = nat (max 4 seg) + 1"
    by (simp add: discretizar_arco_def Let_def split: prod.splits)
  have nth: "i \<le> nat (max 4 seg) \<longrightarrow>
      discretizar_arco cx cy r s e ccw seg ! i =
        (let (a0, a1) = arc_limits s e ccw;
             ang = a0 + (a1 - a0) * (real i / real (nat (max 4 seg)))
         in (cx + cos ang * r, cy + sin ang * r))"
    using discretizar_arco_nth by blast
  from q first final up down tu td len nth show ?thesis by blast
qed

lemma arc_limits_90_0: "arc_limits 90 0 True = (pi / 2, 2 * pi)"
proof -
  have "add_turns (pi / 2) 0 = add_turns (pi / 2) (0 + 2 * pi)"
    by (rule add_turns_step) simp
  also have "\<dots> = 2 * pi"
    by (simp add: add_turns_id)
  finally show ?thesis
    by (simp add: arc_limits_def radians_def)
qed

text \<open>The arc from 90 to 0 degrees, counter-clockwise: one turn is added to the end.\<close>

theorem arc_discretization_witness:
  "fst (arc_limits 90 0 True) < snd (arc_limits 90 0 True) \<and>
   arc_limits 90 0 True = (pi / 2, 2 * pi) \<and>
   (2::nat) \<le> nat (max 4 4) \<and>
   discretizar_arco 0 0 1 90 0 True 4 ! 2 = (cos (5 * pi / 4), sin (5 * pi / 4)) \<and>
   length (discretizar_arco 0 0 1 0 90 True 4) = 5"
  using arc_discretization[of 0 0 1 90 0 True 4 2] arc_limits_90_0
  by (simp add: field_simps Let_def)


end
